theory Spec2Isabelle
  imports Main "HOL-Library.Multiset"
begin

section \<open>Data model\<close>

text \<open>
  The repository holds the same book service twice: \<^verbatim>\<open>src/main.go\<close> (gin router, a
  \<^verbatim>\<open>BookService\<close> struct with an \<^verbatim>\<open>RWMutex\<close>) and \<^verbatim>\<open>src/unnamed/part_000\<close>
  (gorilla/mux router, a global map with a plain \<^verbatim>\<open>Mutex\<close>). Both are embedded. The
  definitions for \<^verbatim>\<open>src/main.go\<close> keep the source's names; those for
  \<^verbatim>\<open>src/unnamed/part_000\<close> carry the suffix \<open>_mux\<close>.
\<close>

record Book =
  ID :: string
  Name :: string
  Author :: string

text \<open>\<^verbatim>\<open>map[string]Book\<close>: the Go map, keyed by a string.\<close>

type_synonym storage = "string \<rightharpoonup> Book"

text \<open>
  A Go slice is either \<^verbatim>\<open>nil\<close> (what \<^verbatim>\<open>var books []Book\<close> declares) or holds
  elements; \<^verbatim>\<open>append\<close> on a nil slice allocates.
\<close>

datatype 'a slice = NilSlice | Slice "'a list"

fun append_slice :: "'a slice \<Rightarrow> 'a \<Rightarrow> 'a slice" where
  "append_slice NilSlice x = Slice [x]"
| "append_slice (Slice xs) x = Slice (xs @ [x])"

fun elems :: "'a slice \<Rightarrow> 'a list" where
  "elems NilSlice = []"
| "elems (Slice xs) = xs"

text \<open>
  The result of binding the request body to a \<^verbatim>\<open>Book\<close> (\<^verbatim>\<open>c.ShouldBindJSON\<close>,
  \<^verbatim>\<open>json.NewDecoder(req.Body).Decode\<close>): \<open>Inl\<close> carries the text of the error,
  \<open>Inr\<close> the decoded struct. The JSON parser itself is library code and is not modelled.
\<close>

type_synonym decoded = "string + Book"

text \<open>
  The Go value handed to the response writer: a string-to-string map literal
  (\<^verbatim>\<open>gin.H{"error": ...}\<close>, \<^verbatim>\<open>map[string]string{"message": ...}\<close>), a \<^verbatim>\<open>Book\<close>, a
  \<^verbatim>\<open>[]Book\<close>, or the plain text of \<^verbatim>\<open>http.Error\<close>.
\<close>

datatype payload = H "(string \<times> string) list" | BookV Book | BooksV "Book slice" | Text string

record response =
  status :: nat
  body :: payload

definition StatusOK :: nat where "StatusOK = 200"
definition StatusBadRequest :: nat where "StatusBadRequest = 400"
definition StatusNotFound :: nat where "StatusNotFound = 404"

subsection \<open>The bytes on the wire\<close>

text \<open>
  \<^verbatim>\<open>encoding/json\<close> writes a struct as an object of its tagged fields, a map as an
  object, a slice as an array, and a nil slice as \<^verbatim>\<open>null\<close>. \<^verbatim>\<open>http.Error\<close> writes
  its message followed by a newline, as plain text.
\<close>

datatype json = JNull | JString string | JArray "json list" | JObject "(string \<times> json) list"

datatype wire = WJson json | WText string

definition marshal_Book :: "Book \<Rightarrow> json" where
  "marshal_Book b =
     JObject [(''id'', JString (ID b)), (''name'', JString (Name b)), (''author'', JString (Author b))]"

fun marshal_slice :: "Book slice \<Rightarrow> json" where
  "marshal_slice NilSlice = JNull"
| "marshal_slice (Slice bs) = JArray (map marshal_Book bs)"

fun marshal :: "payload \<Rightarrow> wire" where
  "marshal (H kvs) = WJson (JObject (map (\<lambda>(k, v). (k, JString v)) kvs))"
| "marshal (BookV b) = WJson (marshal_Book b)"
| "marshal (BooksV s) = WJson (marshal_slice s)"
| "marshal (Text msg) = WText (msg @ [CHR 0x0A])"

section \<open>Effects of one request\<close>

text \<open>
  A handler mutates the shared map, takes and releases the lock, reads the request body
  from the connection, writes the response to it, and logs. One run of a handler is a
  value of \<open>exec\<close>: the map as it stands, the responses written so far to this request's
  writer, and the trace of effects in program order. Request metadata in log entries
  (method, path) and response headers are not modelled. A failing write to the connection
  is not modelled either: in that branch \<^verbatim>\<open>src/unnamed/part_000\<close> only logs.
\<close>

datatype mode = Shared | Exclusive

datatype event =
    Decode
  | Acquire mode
  | Release mode
  | MapRead string
  | MapRange
  | MapWrite string
  | MapDelete string
  | NetWrite
  | LogEntry string string

record exec =
  Storage :: storage
  Written :: "response list"
  Trace :: "event list"

definition start :: "storage \<Rightarrow> exec" where
  "start st = \<lparr>Storage = st, Written = [], Trace = []\<rparr>"

definition emit :: "event \<Rightarrow> exec \<Rightarrow> exec" where
  "emit e x = x\<lparr>Trace := Trace x @ [e]\<rparr>"

text \<open>\<^verbatim>\<open>storage[k] = v\<close> and \<^verbatim>\<open>delete(storage, k)\<close>.\<close>

definition map_store :: "string \<Rightarrow> Book \<Rightarrow> exec \<Rightarrow> exec" where
  "map_store k v x = emit (MapWrite k) (x\<lparr>Storage := (Storage x)(k \<mapsto> v)\<rparr>)"

definition map_delete :: "string \<Rightarrow> exec \<Rightarrow> exec" where
  "map_delete k x = emit (MapDelete k) (x\<lparr>Storage := (Storage x)(k := None)\<rparr>)"

text \<open>
  \<^verbatim>\<open>for _, book := range storage\<close>: Go visits every entry once, in an order the
  runtime chooses. The order is the parameter \<open>keys\<close>; it is a run of the runtime when
  it lists every key of the map once (\<open>iteration_of\<close>).
\<close>

fun range_values :: "storage \<Rightarrow> string list \<Rightarrow> Book list" where
  "range_values st [] = []"
| "range_values st (k # ks) =
     (case st k of None \<Rightarrow> range_values st ks | Some book \<Rightarrow> book # range_values st ks)"

definition iteration_of :: "storage \<Rightarrow> string list \<Rightarrow> bool" where
  "iteration_of st keys = (distinct keys \<and> set keys = dom st)"

text \<open>
  \<^verbatim>\<open>book, exist := storage[k]\<close>: the comma-ok read gives the zero \<^verbatim>\<open>Book\<close> and
  \<^verbatim>\<open>false\<close> for an absent key.
\<close>

definition zero_Book :: Book where
  "zero_Book = \<lparr>ID = [], Name = [], Author = []\<rparr>"

definition lookup :: "storage \<Rightarrow> string \<Rightarrow> Book \<times> bool" where
  "lookup st k = (case st k of None \<Rightarrow> (zero_Book, False) | Some book \<Rightarrow> (book, True))"

section \<open>The handlers of src/main.go\<close>

definition c_JSON :: "nat \<Rightarrow> payload \<Rightarrow> exec \<Rightarrow> exec" where
  "c_JSON code obj x = emit NetWrite (x\<lparr>Written := Written x @ [\<lparr>status = code, body = obj\<rparr>]\<rparr>)"

definition logError :: "string \<Rightarrow> string \<Rightarrow> exec \<Rightarrow> exec" where
  "logError err message x = emit (LogEntry err message) x"

definition NoExist :: "bool \<Rightarrow> exec \<Rightarrow> bool \<times> exec" where
  "NoExist exist x =
     (if \<not> exist then (True, c_JSON StatusNotFound (H [(''error'', ''Record not found'')]) x)
      else (False, x))"

text \<open>The deferred \<^verbatim>\<open>RUnlock\<close> runs when the function returns, after \<^verbatim>\<open>c.JSON\<close>.\<close>

definition returnAllBooks :: "storage \<Rightarrow> string list \<Rightarrow> exec" where
  "returnAllBooks st keys =
     (let x1 = emit (Acquire Shared) (start st);
          books = foldl append_slice NilSlice (range_values (Storage x1) keys);
          x2 = emit MapRange x1;
          x3 = c_JSON StatusOK (BooksV books) x2
      in emit (Release Shared) x3)"

definition returnBooksByID :: "storage \<Rightarrow> string \<Rightarrow> exec" where
  "returnBooksByID st bookID =
     (let x1 = emit (Acquire Shared) (start st);
          (book, exist) = lookup (Storage x1) bookID;
          x2 = emit (MapRead bookID) x1;
          x3 = emit (Release Shared) x2;
          (gone, x4) = NoExist exist x3
      in if gone then x4 else c_JSON StatusOK (BookV book) x4)"

definition createBook :: "storage \<Rightarrow> decoded \<Rightarrow> exec" where
  "createBook st reqBody =
     (let x1 = emit Decode (start st)
      in case reqBody of
           Inl err \<Rightarrow>
             logError err ''Error when decoding JSON''
               (c_JSON StatusBadRequest (H [(''error'', ''Invalid JSON format'')]) x1)
         | Inr newBook \<Rightarrow>
             (let (_, exists) = lookup (Storage x1) (ID newBook);
                  x2 = emit (MapRead (ID newBook)) x1
              in if exists
                 then c_JSON StatusNotFound (H [(''error'', ''Record already exists'')]) x2
                 else (let x3 = emit (Acquire Exclusive) x2;
                           x4 = map_store (ID newBook) newBook x3;
                           x5 = emit (Release Exclusive) x4
                       in c_JSON StatusOK (BookV newBook) x5)))"

text \<open>The deferred \<^verbatim>\<open>Unlock\<close> runs on every return after \<^verbatim>\<open>Lock\<close>, after the response is written.\<close>

definition updateBook :: "storage \<Rightarrow> string \<Rightarrow> decoded \<Rightarrow> exec" where
  "updateBook st bookID reqBody =
     (let x1 = emit Decode (start st)
      in case reqBody of
           Inl err \<Rightarrow>
             logError err ''Error when decoding JSON''
               (c_JSON StatusBadRequest (H [(''error'', ''Invalid JSON format'')]) x1)
         | Inr updatedBook \<Rightarrow>
             (let x2 = emit (Acquire Exclusive) x1;
                  (_, exist) = lookup (Storage x2) bookID;
                  x3 = emit (MapRead bookID) x2;
                  (gone, x4) = NoExist exist x3
              in if gone then emit (Release Exclusive) x4
                 else (let x5 = map_store bookID updatedBook x4;
                           x6 = c_JSON StatusOK (BookV updatedBook) x5
                       in emit (Release Exclusive) x6)))"

definition deleteBook :: "storage \<Rightarrow> string \<Rightarrow> exec" where
  "deleteBook st bookID =
     (let x1 = emit (Acquire Exclusive) (start st);
          (_, exist) = lookup (Storage x1) bookID;
          x2 = emit (MapRead bookID) x1;
          (gone, x3) = NoExist exist x2
      in if gone then emit (Release Exclusive) x3
         else (let x4 = map_delete bookID x3;
                   x5 = c_JSON StatusOK (H [(''message'', ''Book deleted successfully'')]) x4
               in emit (Release Exclusive) x5))"

section \<open>The handlers of src/unnamed/part_000\<close>

text \<open>
  \<^verbatim>\<open>http.Error\<close> writes the status code and the message as plain text;
  \<^verbatim>\<open>json.NewEncoder(w).Encode\<close> writes the value with the implicit status 200.
\<close>

definition http_Error :: "string \<Rightarrow> nat \<Rightarrow> exec \<Rightarrow> exec" where
  "http_Error msg code x =
     emit NetWrite (x\<lparr>Written := Written x @ [\<lparr>status = code, body = Text msg\<rparr>]\<rparr>)"

definition Encode :: "payload \<Rightarrow> exec \<Rightarrow> exec" where
  "Encode obj x = emit NetWrite (x\<lparr>Written := Written x @ [\<lparr>status = StatusOK, body = obj\<rparr>]\<rparr>)"

definition returnAllBooks_mux :: "storage \<Rightarrow> string list \<Rightarrow> exec" where
  "returnAllBooks_mux st keys =
     (let x1 = emit (Acquire Exclusive) (start st);
          books = foldl append_slice NilSlice (range_values (Storage x1) keys);
          x2 = emit MapRange x1;
          x3 = Encode (BooksV books) x2
      in emit (Release Exclusive) x3)"

definition returnBooksByID_mux :: "storage \<Rightarrow> string \<Rightarrow> exec" where
  "returnBooksByID_mux st bookID =
     (let x1 = emit (Acquire Exclusive) (start st);
          (book, exist) = lookup (Storage x1) bookID;
          x2 = emit (MapRead bookID) x1;
          x3 = emit (Release Exclusive) x2
      in if \<not> exist then http_Error ''Record not found'' StatusNotFound x3
         else Encode (BookV book) x3)"

definition createBook_mux :: "storage \<Rightarrow> decoded \<Rightarrow> exec" where
  "createBook_mux st reqBody =
     (let x1 = emit Decode (start st)
      in case reqBody of
           Inl err \<Rightarrow>
             logError err ''Error when decoding JSON''
               (http_Error ''Invalid JSON format'' StatusBadRequest x1)
         | Inr newBook \<Rightarrow>
             (let (_, exists) = lookup (Storage x1) (ID newBook);
                  x2 = emit (MapRead (ID newBook)) x1
              in if exists then http_Error ''Record already exists'' StatusBadRequest x2
                 else (let x3 = emit (Acquire Exclusive) x2;
                           x4 = map_store (ID newBook) newBook x3;
                           x5 = emit (Release Exclusive) x4
                       in Encode (BookV newBook) x5)))"

definition updateBook_mux :: "storage \<Rightarrow> string \<Rightarrow> decoded \<Rightarrow> exec" where
  "updateBook_mux st bookID reqBody =
     (let x1 = emit Decode (start st)
      in case reqBody of
           Inl err \<Rightarrow>
             logError err ''Error when decoding JSON''
               (http_Error ''Invalid JSON format'' StatusBadRequest x1)
         | Inr updatedBook \<Rightarrow>
             (let x2 = emit (Acquire Exclusive) x1;
                  (_, exist) = lookup (Storage x2) bookID;
                  x3 = emit (MapRead bookID) x2
              in if \<not> exist
                 then emit (Release Exclusive) (http_Error ''Record not found'' StatusNotFound x3)
                 else (let x4 = map_store bookID updatedBook x3;
                           x5 = Encode (BookV updatedBook) x4
                       in emit (Release Exclusive) x5)))"

definition deleteBook_mux :: "storage \<Rightarrow> string \<Rightarrow> exec" where
  "deleteBook_mux st bookID =
     (let x1 = emit (Acquire Exclusive) (start st);
          (_, exist) = lookup (Storage x1) bookID;
          x2 = emit (MapRead bookID) x1
      in if \<not> exist
         then emit (Release Exclusive) (http_Error ''Record not found'' StatusNotFound x2)
         else (let x3 = map_delete bookID x2;
                   x4 = Encode (H [(''message'', ''Book deleted successfully'')]) x3
               in emit (Release Exclusive) x4))"

section \<open>Sequences of requests\<close>

text \<open>
  The mutating requests of the service, and the map after serving a list of them one
  after the other.
\<close>

datatype request = Create decoded | Update string decoded | Delete string

fun handle :: "storage \<Rightarrow> request \<Rightarrow> storage" where
  "handle st (Create reqBody) = Storage (createBook st reqBody)"
| "handle st (Update bookID reqBody) = Storage (updateBook st bookID reqBody)"
| "handle st (Delete bookID) = Storage (deleteBook st bookID)"

fun handle_mux :: "storage \<Rightarrow> request \<Rightarrow> storage" where
  "handle_mux st (Create reqBody) = Storage (createBook_mux st reqBody)"
| "handle_mux st (Update bookID reqBody) = Storage (updateBook_mux st bookID reqBody)"
| "handle_mux st (Delete bookID) = Storage (deleteBook_mux st bookID)"

definition serve :: "storage \<Rightarrow> request list \<Rightarrow> storage" where
  "serve st reqs = foldl handle st reqs"

definition serve_mux :: "storage \<Rightarrow> request list \<Rightarrow> storage" where
  "serve_mux st reqs = foldl handle_mux st reqs"

text \<open>No two entries of the map hold Records with the same \<open>ID\<close> field.\<close>

definition unique_ids :: "storage \<Rightarrow> bool" where
  "unique_ids st =
     (\<forall>k k' b b'. st k = Some b \<and> st k' = Some b' \<and> ID b = ID b' \<longrightarrow> k = k')"

text \<open>Every entry is stored under the \<open>ID\<close> field of its Record.\<close>

definition keyed_by_id :: "storage \<Rightarrow> bool" where
  "keyed_by_id st = (\<forall>k b. st k = Some b \<longrightarrow> ID b = k)"

text \<open>An Update whose decoded payload carries the id of its path.\<close>

fun path_matches_payload :: "request \<Rightarrow> bool" where
  "path_matches_payload (Update bookID (Inr updatedBook)) = (ID updatedBook = bookID)"
| "path_matches_payload _ = True"

section \<open>Lock discipline along a trace\<close>

text \<open>
  The events of a trace that happen while the lock is held, and those that happen
  while it is not. The flag says whether the lock is held where the trace begins.
\<close>

fun under_lock :: "bool \<Rightarrow> event list \<Rightarrow> event list" where
  "under_lock held [] = []"
| "under_lock held (Acquire m # es) = under_lock True es"
| "under_lock held (Release m # es) = under_lock False es"
| "under_lock held (e # es) = (if held then e # under_lock held es else under_lock held es)"

fun outside_lock :: "bool \<Rightarrow> event list \<Rightarrow> event list" where
  "outside_lock held [] = []"
| "outside_lock held (Acquire m # es) = outside_lock True es"
| "outside_lock held (Release m # es) = outside_lock False es"
| "outside_lock held (e # es) = (if held then outside_lock held es else e # outside_lock held es)"

fun held_after :: "bool \<Rightarrow> event list \<Rightarrow> bool" where
  "held_after held [] = held"
| "held_after held (Acquire m # es) = held_after True es"
| "held_after held (Release m # es) = held_after False es"
| "held_after held (e # es) = held_after held es"

text \<open>No read of the request body and no write of the response while the lock is held.\<close>

definition no_io_under_lock :: "event list \<Rightarrow> bool" where
  "no_io_under_lock tr = (Decode \<notin> set (under_lock False tr) \<and> NetWrite \<notin> set (under_lock False tr))"

section \<open>createBook, one statement at a time\<close>

text \<open>
  Requests run concurrently, so between two statements of one \<^verbatim>\<open>createBook\<close> another
  may run. A thread is the statement it stands at, with what it has written; the system
  is the shared map and whether the mutex is held. \<^verbatim>\<open>Lock\<close> on a held mutex waits:
  the thread stays where it is. The statements are those of \<^verbatim>\<open>createBook\<close> in
  \<^verbatim>\<open>src/main.go\<close>, lines 71, 77, 82, 83, 84 and 86.
\<close>

datatype create_pc =
    AtBind decoded
  | AtCheck Book
  | AtLock Book
  | AtStore Book
  | AtUnlock Book
  | AtRespond Book
  | Returned

record thread =
  pc :: create_pc
  out :: "response list"

record sys =
  Store :: storage
  MuHeld :: bool

fun createBook_step :: "sys \<Rightarrow> thread \<Rightarrow> sys \<times> thread" where
  "createBook_step s t =
     (case pc t of
        AtBind reqBody \<Rightarrow>
          (case reqBody of
             Inl err \<Rightarrow>
               (s, \<lparr>pc = Returned,
                    out = out t @ [\<lparr>status = StatusBadRequest, body = H [(''error'', ''Invalid JSON format'')]\<rparr>]\<rparr>)
           | Inr newBook \<Rightarrow> (s, t\<lparr>pc := AtCheck newBook\<rparr>))
      | AtCheck newBook \<Rightarrow>
          (if snd (lookup (Store s) (ID newBook))
           then (s, \<lparr>pc = Returned,
                     out = out t @ [\<lparr>status = StatusNotFound, body = H [(''error'', ''Record already exists'')]\<rparr>]\<rparr>)
           else (s, t\<lparr>pc := AtLock newBook\<rparr>))
      | AtLock newBook \<Rightarrow>
          (if MuHeld s then (s, t) else (s\<lparr>MuHeld := True\<rparr>, t\<lparr>pc := AtStore newBook\<rparr>))
      | AtStore newBook \<Rightarrow>
          (s\<lparr>Store := (Store s)(ID newBook \<mapsto> newBook)\<rparr>, t\<lparr>pc := AtUnlock newBook\<rparr>)
      | AtUnlock newBook \<Rightarrow> (s\<lparr>MuHeld := False\<rparr>, t\<lparr>pc := AtRespond newBook\<rparr>)
      | AtRespond newBook \<Rightarrow>
          (s, \<lparr>pc = Returned, out = out t @ [\<lparr>status = StatusOK, body = BookV newBook\<rparr>]\<rparr>)
      | Returned \<Rightarrow> (s, t))"

text \<open>The same for \<^verbatim>\<open>createBook\<close> in \<^verbatim>\<open>src/unnamed/part_000\<close>, lines 72, 78, 83, 84, 85 and 87.\<close>

fun createBook_mux_step :: "sys \<Rightarrow> thread \<Rightarrow> sys \<times> thread" where
  "createBook_mux_step s t =
     (case pc t of
        AtBind reqBody \<Rightarrow>
          (case reqBody of
             Inl err \<Rightarrow>
               (s, \<lparr>pc = Returned,
                    out = out t @ [\<lparr>status = StatusBadRequest, body = Text ''Invalid JSON format''\<rparr>]\<rparr>)
           | Inr newBook \<Rightarrow> (s, t\<lparr>pc := AtCheck newBook\<rparr>))
      | AtCheck newBook \<Rightarrow>
          (if snd (lookup (Store s) (ID newBook))
           then (s, \<lparr>pc = Returned,
                     out = out t @ [\<lparr>status = StatusBadRequest, body = Text ''Record already exists''\<rparr>]\<rparr>)
           else (s, t\<lparr>pc := AtLock newBook\<rparr>))
      | AtLock newBook \<Rightarrow>
          (if MuHeld s then (s, t) else (s\<lparr>MuHeld := True\<rparr>, t\<lparr>pc := AtStore newBook\<rparr>))
      | AtStore newBook \<Rightarrow>
          (s\<lparr>Store := (Store s)(ID newBook \<mapsto> newBook)\<rparr>, t\<lparr>pc := AtUnlock newBook\<rparr>)
      | AtUnlock newBook \<Rightarrow> (s\<lparr>MuHeld := False\<rparr>, t\<lparr>pc := AtRespond newBook\<rparr>)
      | AtRespond newBook \<Rightarrow>
          (s, \<lparr>pc = Returned, out = out t @ [\<lparr>status = StatusOK, body = BookV newBook\<rparr>]\<rparr>)
      | Returned \<Rightarrow> (s, t))"

text \<open>
  A schedule names, step by step, the thread that runs next; \<open>interleave\<close> runs the
  threads along it.
\<close>

fun interleave ::
  "(sys \<Rightarrow> thread \<Rightarrow> sys \<times> thread) \<Rightarrow> nat list \<Rightarrow> sys \<times> thread list \<Rightarrow> sys \<times> thread list" where
  "interleave stp [] cfg = cfg"
| "interleave stp (i # sched) (s, ts) =
     (if i < length ts
      then (case stp s (ts ! i) of (s', t') \<Rightarrow> interleave stp sched (s', ts[i := t']))
      else interleave stp sched (s, ts))"

definition spawn :: "decoded \<Rightarrow> thread" where
  "spawn reqBody = \<lparr>pc = AtBind reqBody, out = []\<rparr>"

definition idle :: "storage \<Rightarrow> sys" where
  "idle st = \<lparr>Store = st, MuHeld = False\<rparr>"

section \<open>Sample data\<close>

text \<open>
  The Record of the spec's round-trip example, a second payload with the same id, and a
  Record with another id.
\<close>

definition first_book :: Book where
  "first_book = \<lparr>ID = ''1'', Name = ''A'', Author = ''B''\<rparr>"

definition second_book :: Book where
  "second_book = \<lparr>ID = ''1'', Name = ''N2'', Author = ''A2''\<rparr>"

definition other_book :: Book where
  "other_book = \<lparr>ID = ''2'', Name = ''C'', Author = ''D''\<rparr>"

section \<open>Basic facts\<close>

lemmas handler_defs =
  start_def emit_def c_JSON_def logError_def NoExist_def lookup_def map_store_def map_delete_def
  http_Error_def Encode_def StatusOK_def StatusBadRequest_def StatusNotFound_def

lemmas handlers =
  createBook_def updateBook_def deleteBook_def returnBooksByID_def returnAllBooks_def

lemmas handlers_mux =
  createBook_mux_def updateBook_mux_def deleteBook_mux_def returnBooksByID_mux_def
  returnAllBooks_mux_def

subsection \<open>src/main.go, path by path\<close>

lemma createBook_absent:
  "st (ID r) = None \<Longrightarrow>
     Storage (createBook st (Inr r)) = st(ID r \<mapsto> r)
     \<and> Written (createBook st (Inr r)) = [\<lparr>status = 200, body = BookV r\<rparr>]"
  by (simp add: handlers handler_defs)

lemma createBook_present:
  "st (ID r) = Some b \<Longrightarrow>
     Storage (createBook st (Inr r)) = st
     \<and> Written (createBook st (Inr r)) =
         [\<lparr>status = 404, body = H [(''error'', ''Record already exists'')]\<rparr>]"
  by (simp add: handlers handler_defs)

lemma createBook_undecoded:
  "Storage (createBook st (Inl err)) = st
   \<and> Written (createBook st (Inl err)) =
       [\<lparr>status = 400, body = H [(''error'', ''Invalid JSON format'')]\<rparr>]"
  by (simp add: handlers handler_defs)

lemma updateBook_present:
  "st k = Some b \<Longrightarrow>
     Storage (updateBook st k (Inr r)) = st(k \<mapsto> r)
     \<and> Written (updateBook st k (Inr r)) = [\<lparr>status = 200, body = BookV r\<rparr>]"
  by (simp add: handlers handler_defs)

lemma updateBook_absent:
  "st k = None \<Longrightarrow>
     Storage (updateBook st k (Inr r)) = st
     \<and> Written (updateBook st k (Inr r)) =
         [\<lparr>status = 404, body = H [(''error'', ''Record not found'')]\<rparr>]"
  by (simp add: handlers handler_defs)

lemma updateBook_undecoded:
  "Storage (updateBook st k (Inl err)) = st
   \<and> Written (updateBook st k (Inl err)) =
       [\<lparr>status = 400, body = H [(''error'', ''Invalid JSON format'')]\<rparr>]"
  by (simp add: handlers handler_defs)

lemma deleteBook_present:
  "st k = Some b \<Longrightarrow>
     Storage (deleteBook st k) = st(k := None)
     \<and> Written (deleteBook st k) =
         [\<lparr>status = 200, body = H [(''message'', ''Book deleted successfully'')]\<rparr>]"
  by (simp add: handlers handler_defs)

lemma deleteBook_absent:
  "st k = None \<Longrightarrow>
     Storage (deleteBook st k) = st
     \<and> Written (deleteBook st k) =
         [\<lparr>status = 404, body = H [(''error'', ''Record not found'')]\<rparr>]"
  by (simp add: handlers handler_defs)

lemma returnBooksByID_present:
  "st k = Some b \<Longrightarrow>
     Storage (returnBooksByID st k) = st
     \<and> Written (returnBooksByID st k) = [\<lparr>status = 200, body = BookV b\<rparr>]"
  by (simp add: handlers handler_defs)

lemma returnBooksByID_absent:
  "st k = None \<Longrightarrow>
     Storage (returnBooksByID st k) = st
     \<and> Written (returnBooksByID st k) =
         [\<lparr>status = 404, body = H [(''error'', ''Record not found'')]\<rparr>]"
  by (simp add: handlers handler_defs)

subsection \<open>src/unnamed/part_000, path by path\<close>

lemma createBook_mux_absent:
  "st (ID r) = None \<Longrightarrow>
     Storage (createBook_mux st (Inr r)) = st(ID r \<mapsto> r)
     \<and> Written (createBook_mux st (Inr r)) = [\<lparr>status = 200, body = BookV r\<rparr>]"
  by (simp add: handlers_mux handler_defs)

lemma createBook_mux_present:
  "st (ID r) = Some b \<Longrightarrow>
     Storage (createBook_mux st (Inr r)) = st
     \<and> Written (createBook_mux st (Inr r)) =
         [\<lparr>status = 400, body = Text ''Record already exists''\<rparr>]"
  by (simp add: handlers_mux handler_defs)

lemma createBook_mux_undecoded:
  "Storage (createBook_mux st (Inl err)) = st
   \<and> Written (createBook_mux st (Inl err)) =
       [\<lparr>status = 400, body = Text ''Invalid JSON format''\<rparr>]"
  by (simp add: handlers_mux handler_defs)

lemma updateBook_mux_present:
  "st k = Some b \<Longrightarrow>
     Storage (updateBook_mux st k (Inr r)) = st(k \<mapsto> r)
     \<and> Written (updateBook_mux st k (Inr r)) = [\<lparr>status = 200, body = BookV r\<rparr>]"
  by (simp add: handlers_mux handler_defs)

lemma updateBook_mux_absent:
  "st k = None \<Longrightarrow>
     Storage (updateBook_mux st k (Inr r)) = st
     \<and> Written (updateBook_mux st k (Inr r)) =
         [\<lparr>status = 404, body = Text ''Record not found''\<rparr>]"
  by (simp add: handlers_mux handler_defs)

lemma updateBook_mux_undecoded:
  "Storage (updateBook_mux st k (Inl err)) = st
   \<and> Written (updateBook_mux st k (Inl err)) =
       [\<lparr>status = 400, body = Text ''Invalid JSON format''\<rparr>]"
  by (simp add: handlers_mux handler_defs)

lemma deleteBook_mux_present:
  "st k = Some b \<Longrightarrow>
     Storage (deleteBook_mux st k) = st(k := None)
     \<and> Written (deleteBook_mux st k) =
         [\<lparr>status = 200, body = H [(''message'', ''Book deleted successfully'')]\<rparr>]"
  by (simp add: handlers_mux handler_defs)

lemma deleteBook_mux_absent:
  "st k = None \<Longrightarrow>
     Storage (deleteBook_mux st k) = st
     \<and> Written (deleteBook_mux st k) = [\<lparr>status = 404, body = Text ''Record not found''\<rparr>]"
  by (simp add: handlers_mux handler_defs)

lemma returnBooksByID_mux_present:
  "st k = Some b \<Longrightarrow>
     Storage (returnBooksByID_mux st k) = st
     \<and> Written (returnBooksByID_mux st k) = [\<lparr>status = 200, body = BookV b\<rparr>]"
  by (simp add: handlers_mux handler_defs)

lemma returnBooksByID_mux_absent:
  "st k = None \<Longrightarrow>
     Storage (returnBooksByID_mux st k) = st
     \<and> Written (returnBooksByID_mux st k) = [\<lparr>status = 404, body = Text ''Record not found''\<rparr>]"
  by (simp add: handlers_mux handler_defs)

text \<open>The two files change the map in the same way.\<close>

lemma handle_mux_eq: "handle_mux st rq = handle st rq"
  by (cases rq)
    (auto simp: handlers handlers_mux handler_defs Let_def split: sum.splits option.splits)

lemma serve_mux_eq: "serve_mux st reqs = serve st reqs"
  by (induction reqs arbitrary: st) (simp_all add: serve_mux_def serve_def handle_mux_eq)

subsection \<open>The map after one request\<close>

lemma handle_cases:
  "handle st rq =
     (case rq of
        Create (Inl e) \<Rightarrow> st
      | Create (Inr r) \<Rightarrow> (if st (ID r) = None then st(ID r \<mapsto> r) else st)
      | Update k (Inl e) \<Rightarrow> st
      | Update k (Inr r) \<Rightarrow> (if st k = None then st else st(k \<mapsto> r))
      | Delete k \<Rightarrow> st(k := None))"
  by (auto simp: handlers handler_defs split: request.splits sum.splits option.splits)

lemma keyed_by_id_handle:
  "keyed_by_id st \<Longrightarrow> path_matches_payload rq \<Longrightarrow> keyed_by_id (handle st rq)"
  by (auto simp: handle_cases keyed_by_id_def split: request.splits sum.splits if_splits)

lemma keyed_by_id_serve:
  "keyed_by_id st \<Longrightarrow> list_all path_matches_payload reqs \<Longrightarrow> keyed_by_id (serve st reqs)"
  by (induction reqs arbitrary: st) (simp_all add: serve_def keyed_by_id_handle)

lemma keyed_by_id_unique: "keyed_by_id st \<Longrightarrow> unique_ids st"
  by (auto simp: keyed_by_id_def unique_ids_def)

lemma keyed_by_id_empty: "keyed_by_id Map.empty"
  by (simp add: keyed_by_id_def)

lemma serve_update_foreign_id:
  "serve Map.empty [Create (Inr first_book), Create (Inr other_book), Update ''2'' (Inr second_book)]
     = [''1'' \<mapsto> first_book, ''2'' \<mapsto> second_book]"
  by (simp add: serve_def handle_cases first_book_def second_book_def other_book_def)

subsection \<open>The loop of returnAllBooks\<close>

lemma foldl_append_slice_Slice: "foldl append_slice (Slice xs) ys = Slice (xs @ ys)"
  by (induction ys arbitrary: xs) simp_all

lemma foldl_append_slice_Nil:
  "foldl append_slice NilSlice ys = (if ys = [] then NilSlice else Slice ys)"
  by (cases ys) (simp_all add: foldl_append_slice_Slice)

lemma range_values_map:
  "set keys \<subseteq> dom st \<Longrightarrow> range_values st keys = map (\<lambda>k. the (st k)) keys"
  by (induction keys) (auto split: option.splits)

lemma mset_range_values:
  assumes "iteration_of st keys"
  shows "mset (range_values st keys) = image_mset (\<lambda>k. the (st k)) (mset_set (dom st))"
proof -
  from assms have d: "distinct keys" and s: "set keys = dom st"
    by (simp_all add: iteration_of_def)
  have "mset (range_values st keys) = image_mset (\<lambda>k. the (st k)) (mset keys)"
    using s by (simp add: range_values_map)
  also have "mset keys = mset_set (dom st)"
    using d s by (metis mset_set_set)
  finally show ?thesis .
qed

lemma range_values_nonempty:
  "iteration_of st keys \<Longrightarrow> st \<noteq> Map.empty \<Longrightarrow> range_values st keys \<noteq> []"
  by (cases keys) (auto simp: iteration_of_def split: option.splits)

text \<open>
  On a map with at least one entry the handler answers 200 with a slice that holds the
  Record of every key once, in the order of the iteration, and leaves the map as it was.
\<close>

lemma returnAllBooks_nonempty:
  assumes "iteration_of st keys" and "st \<noteq> Map.empty"
  shows "Written (returnAllBooks st keys) =
           [\<lparr>status = 200, body = BooksV (Slice (range_values st keys))\<rparr>]
       \<and> Written (returnAllBooks_mux st keys) =
           [\<lparr>status = 200, body = BooksV (Slice (range_values st keys))\<rparr>]
       \<and> mset (range_values st keys) = image_mset (\<lambda>k. the (st k)) (mset_set (dom st))
       \<and> Storage (returnAllBooks st keys) = st \<and> Storage (returnAllBooks_mux st keys) = st"
  using range_values_nonempty [OF assms] mset_range_values [OF assms(1)]
  by (simp add: handlers handlers_mux handler_defs foldl_append_slice_Nil)

subsection \<open>Traces\<close>

lemma Trace_returnAllBooks:
  "Trace (returnAllBooks st keys) = [Acquire Shared, MapRange, NetWrite, Release Shared]"
  by (simp add: handlers handler_defs)

lemma Trace_returnBooksByID:
  "Trace (returnBooksByID st k) = [Acquire Shared, MapRead k, Release Shared, NetWrite]"
  by (simp add: handlers handler_defs split: option.splits)

lemma Trace_createBook:
  "Trace (createBook st reqBody) =
     (case reqBody of
        Inl err \<Rightarrow> [Decode, NetWrite, LogEntry err ''Error when decoding JSON'']
      | Inr r \<Rightarrow>
          (if st (ID r) = None
           then [Decode, MapRead (ID r), Acquire Exclusive, MapWrite (ID r), Release Exclusive, NetWrite]
           else [Decode, MapRead (ID r), NetWrite]))"
  by (simp add: handlers handler_defs split: sum.splits option.splits)

lemma Trace_updateBook:
  "Trace (updateBook st k reqBody) =
     (case reqBody of
        Inl err \<Rightarrow> [Decode, NetWrite, LogEntry err ''Error when decoding JSON'']
      | Inr r \<Rightarrow>
          (if st k = None
           then [Decode, Acquire Exclusive, MapRead k, NetWrite, Release Exclusive]
           else [Decode, Acquire Exclusive, MapRead k, MapWrite k, NetWrite, Release Exclusive]))"
  by (simp add: handlers handler_defs split: sum.splits option.splits)

lemma Trace_deleteBook:
  "Trace (deleteBook st k) =
     (if st k = None
      then [Acquire Exclusive, MapRead k, NetWrite, Release Exclusive]
      else [Acquire Exclusive, MapRead k, MapDelete k, NetWrite, Release Exclusive])"
  by (simp add: handlers handler_defs split: option.splits)

lemma Trace_returnAllBooks_mux:
  "Trace (returnAllBooks_mux st keys) = [Acquire Exclusive, MapRange, NetWrite, Release Exclusive]"
  by (simp add: handlers_mux handler_defs)

lemma Trace_returnBooksByID_mux:
  "Trace (returnBooksByID_mux st k) = [Acquire Exclusive, MapRead k, Release Exclusive, NetWrite]"
  by (simp add: handlers_mux handler_defs split: option.splits)

lemma Trace_createBook_mux:
  "Trace (createBook_mux st reqBody) =
     (case reqBody of
        Inl err \<Rightarrow> [Decode, NetWrite, LogEntry err ''Error when decoding JSON'']
      | Inr r \<Rightarrow>
          (if st (ID r) = None
           then [Decode, MapRead (ID r), Acquire Exclusive, MapWrite (ID r), Release Exclusive, NetWrite]
           else [Decode, MapRead (ID r), NetWrite]))"
  by (simp add: handlers_mux handler_defs split: sum.splits option.splits)

lemma Trace_updateBook_mux:
  "Trace (updateBook_mux st k reqBody) =
     (case reqBody of
        Inl err \<Rightarrow> [Decode, NetWrite, LogEntry err ''Error when decoding JSON'']
      | Inr r \<Rightarrow>
          (if st k = None
           then [Decode, Acquire Exclusive, MapRead k, NetWrite, Release Exclusive]
           else [Decode, Acquire Exclusive, MapRead k, MapWrite k, NetWrite, Release Exclusive]))"
  by (simp add: handlers_mux handler_defs split: sum.splits option.splits)

lemma Trace_deleteBook_mux:
  "Trace (deleteBook_mux st k) =
     (if st k = None
      then [Acquire Exclusive, MapRead k, NetWrite, Release Exclusive]
      else [Acquire Exclusive, MapRead k, MapDelete k, NetWrite, Release Exclusive])"
  by (simp add: handlers_mux handler_defs split: option.splits)

lemmas traces =
  Trace_returnAllBooks Trace_returnBooksByID Trace_createBook Trace_updateBook Trace_deleteBook
  Trace_returnAllBooks_mux Trace_returnBooksByID_mux Trace_createBook_mux Trace_updateBook_mux
  Trace_deleteBook_mux

text \<open>
  \<^verbatim>\<open>updateBook\<close> and \<^verbatim>\<open>deleteBook\<close> read and write the map only while they hold the
  lock; \<^verbatim>\<open>createBook\<close> reads it before it takes the lock.
\<close>

lemma update_delete_access_locked:
  "outside_lock False (Trace (updateBook st k (Inr r))) = [Decode]
   \<and> outside_lock False (Trace (deleteBook st k)) = []
   \<and> outside_lock False (Trace (updateBook_mux st k (Inr r))) = [Decode]
   \<and> outside_lock False (Trace (deleteBook_mux st k)) = []"
  by (simp add: traces)

lemma createBook_checks_unlocked:
  "MapRead (ID r) \<in> set (outside_lock False (Trace (createBook st (Inr r))))
   \<and> MapRead (ID r) \<in> set (outside_lock False (Trace (createBook_mux st (Inr r))))"
  by (simp add: traces)

subsection \<open>One thread alone\<close>

text \<open>
  Run alone from an idle system, the statements of \<^verbatim>\<open>createBook\<close> give the map and the
  response of the handler as a whole.
\<close>

lemma createBook_step_alone:
  "interleave createBook_step [0, 0, 0, 0, 0, 0] (idle st, [spawn reqBody])
     = (idle (Storage (createBook st reqBody)),
        [\<lparr>pc = Returned, out = Written (createBook st reqBody)\<rparr>])"
  by (cases reqBody)
    (simp_all add: idle_def spawn_def handlers handler_defs split: option.splits)

lemma createBook_mux_step_alone:
  "interleave createBook_mux_step [0, 0, 0, 0, 0, 0] (idle st, [spawn reqBody])
     = (idle (Storage (createBook_mux st reqBody)),
        [\<lparr>pc = Returned, out = Written (createBook_mux st reqBody)\<rparr>])"
  by (cases reqBody)
    (simp_all add: idle_def spawn_def handlers_mux handler_defs split: option.splits)

section \<open>The claims\<close>

subsection \<open>C1: uniqueness of the id field\<close>

text \<open>
  C1, as stated, fails. Serving Create of a Record with id 1, Create of a Record with
  id 2 and then Update on path 2 with a payload whose id field is 1 leaves two live
  Records with the id field 1: \<^verbatim>\<open>updateBook\<close> stores the payload under the path id and
  never looks at the payload's own id.
\<close>

theorem update_breaks_unique_ids:
  "\<not> unique_ids
       (serve Map.empty
          [Create (Inr first_book), Create (Inr other_book), Update ''2'' (Inr second_book)])"
proof
  assume u: "unique_ids
       (serve Map.empty
          [Create (Inr first_book), Create (Inr other_book), Update ''2'' (Inr second_book)])"
  have a: "[''1'' \<mapsto> first_book, ''2'' \<mapsto> second_book] ''1'' = Some first_book"
    by simp
  have b: "[''1'' \<mapsto> first_book, ''2'' \<mapsto> second_book] ''2'' = Some second_book"
    by simp
  have c: "ID first_book = ID second_book"
    by (simp add: first_book_def second_book_def)
  from u [unfolded serve_update_foreign_id unique_ids_def] a b c have "''1'' = ''2''"
    by blast
  then show False by simp
qed

text \<open>
  C1, amended: starting from the empty Store and serving any sequence of Create, Update
  and Delete requests one after the other, in which every Update with a decodable body
  carries a payload whose id field equals the path id, no two Records held in the Store
  have the same id field. This holds for both source files.
\<close>

theorem ids_unique_when_paths_match:
  assumes "list_all path_matches_payload reqs"
  shows "unique_ids (serve Map.empty reqs) \<and> unique_ids (serve_mux Map.empty reqs)"
  using assms
  by (simp add: serve_mux_eq keyed_by_id_unique keyed_by_id_serve keyed_by_id_empty)

theorem ids_unique_when_paths_match_witness:
  "list_all path_matches_payload
     [Create (Inr first_book), Update ''1'' (Inr second_book), Delete ''2'', Create (Inr other_book)]
   \<and> unique_ids (serve Map.empty
        [Create (Inr first_book), Update ''1'' (Inr second_book), Delete ''2'', Create (Inr other_book)])
   \<and> unique_ids (serve_mux Map.empty
        [Create (Inr first_book), Update ''1'' (Inr second_book), Delete ''2'', Create (Inr other_book)])"
  using ids_unique_when_paths_match
    [of "[Create (Inr first_book), Update ''1'' (Inr second_book), Delete ''2'', Create (Inr other_book)]"]
  by (simp add: second_book_def)

subsection \<open>C2: check and insert under one lock\<close>

text \<open>
  C2: Insert checks for the id and inserts under one held exclusive lock, so that two
  concurrent Creates with the same id can never both observe absence and both insert.
  \<^verbatim>\<open>createBook\<close> reads the map before it takes the lock, in both source files. Two
  threads creating Records with the same id on the empty Store, each run up to its
  \<^verbatim>\<open>Lock\<close> before the other goes on, both pass the check; run to the end, both answer
  200 with their own Record, and the map holds the second Record only.
\<close>

theorem concurrent_creates_both_insert:
  "interleave createBook_step [0, 0, 1, 1]
       (idle Map.empty, [spawn (Inr first_book), spawn (Inr second_book)])
     = (idle Map.empty, [\<lparr>pc = AtLock first_book, out = []\<rparr>, \<lparr>pc = AtLock second_book, out = []\<rparr>])
   \<and> interleave createBook_step [0, 0, 1, 1, 0, 0, 0, 0, 1, 1, 1, 1]
       (idle Map.empty, [spawn (Inr first_book), spawn (Inr second_book)])
     = (idle [''1'' \<mapsto> second_book],
        [\<lparr>pc = Returned, out = [\<lparr>status = 200, body = BookV first_book\<rparr>]\<rparr>,
         \<lparr>pc = Returned, out = [\<lparr>status = 200, body = BookV second_book\<rparr>]\<rparr>])
   \<and> interleave createBook_mux_step [0, 0, 1, 1]
       (idle Map.empty, [spawn (Inr first_book), spawn (Inr second_book)])
     = (idle Map.empty, [\<lparr>pc = AtLock first_book, out = []\<rparr>, \<lparr>pc = AtLock second_book, out = []\<rparr>])
   \<and> interleave createBook_mux_step [0, 0, 1, 1, 0, 0, 0, 0, 1, 1, 1, 1]
       (idle Map.empty, [spawn (Inr first_book), spawn (Inr second_book)])
     = (idle [''1'' \<mapsto> second_book],
        [\<lparr>pc = Returned, out = [\<lparr>status = 200, body = BookV first_book\<rparr>]\<rparr>,
         \<lparr>pc = Returned, out = [\<lparr>status = 200, body = BookV second_book\<rparr>]\<rparr>])"
  by (simp add: idle_def spawn_def lookup_def first_book_def second_book_def StatusOK_def)

subsection \<open>C3: the second Create with an id\<close>

text \<open>
  C3: a Create whose id is already present fails with status 400 and the message
  "Record already exists", and the Store keeps the first Record. With the first Record
  stored under id 1 and a second payload with id 1, \<^verbatim>\<open>src/main.go\<close> answers 404
  (\<^verbatim>\<open>http.StatusNotFound\<close>), \<^verbatim>\<open>src/unnamed/part_000\<close> answers 400; neither stores
  the second payload.
\<close>

theorem duplicate_create_status:
  "Written (createBook [''1'' \<mapsto> first_book] (Inr second_book))
     = [\<lparr>status = 404, body = H [(''error'', ''Record already exists'')]\<rparr>]
   \<and> Storage (createBook [''1'' \<mapsto> first_book] (Inr second_book)) = [''1'' \<mapsto> first_book]
   \<and> Written (createBook_mux [''1'' \<mapsto> first_book] (Inr second_book))
     = [\<lparr>status = 400, body = Text ''Record already exists''\<rparr>]
   \<and> Storage (createBook_mux [''1'' \<mapsto> first_book] (Inr second_book)) = [''1'' \<mapsto> first_book]"
  by (simp add: handlers handlers_mux handler_defs second_book_def)

subsection \<open>C4: List\<close>

text \<open>
  C4: List on the empty Store is serialized as the JSON array \<^verbatim>\<open>[]\<close>. On the empty
  map the loop of \<^verbatim>\<open>returnAllBooks\<close> never appends, the slice stays nil, and a nil
  slice is written as \<^verbatim>\<open>null\<close>, in both source files. (For a Store with entries,
  \<open>returnAllBooks_nonempty\<close> gives every Record once.)
\<close>

theorem empty_list_is_null:
  "Written (returnAllBooks Map.empty []) = [\<lparr>status = 200, body = BooksV NilSlice\<rparr>]
   \<and> Written (returnAllBooks_mux Map.empty []) = [\<lparr>status = 200, body = BooksV NilSlice\<rparr>]
   \<and> marshal (BooksV NilSlice) = WJson JNull
   \<and> marshal (BooksV NilSlice) \<noteq> WJson (JArray [])"
  by (simp add: handlers handlers_mux handler_defs)

subsection \<open>C5: Update keys on the path\<close>

text \<open>
  C5: when the path id \<open>k\<close> is present, Update replaces the value stored at \<open>k\<close> with the
  decoded record, whatever the record's own id field; the entry stays under \<open>k\<close>, no
  other key changes, and the response is 200 with the record.
\<close>

theorem update_keys_on_path:
  assumes "st k = Some old"
  shows "Storage (updateBook st k (Inr record)) = st(k \<mapsto> record)
       \<and> Written (updateBook st k (Inr record)) = [\<lparr>status = 200, body = BookV record\<rparr>]
       \<and> Storage (updateBook_mux st k (Inr record)) = st(k \<mapsto> record)
       \<and> Written (updateBook_mux st k (Inr record)) = [\<lparr>status = 200, body = BookV record\<rparr>]"
  using assms by (simp add: updateBook_present updateBook_mux_present)

theorem update_keys_on_path_witness:
  "[''1'' \<mapsto> first_book] ''1'' = Some first_book
   \<and> ID other_book \<noteq> ''1''
   \<and> Storage (updateBook [''1'' \<mapsto> first_book] ''1'' (Inr other_book)) = [''1'' \<mapsto> other_book]
   \<and> Storage (updateBook [''1'' \<mapsto> first_book] ''1'' (Inr other_book)) ''2'' = None
   \<and> Written (updateBook [''1'' \<mapsto> first_book] ''1'' (Inr other_book))
       = [\<lparr>status = 200, body = BookV other_book\<rparr>]
   \<and> Storage (updateBook_mux [''1'' \<mapsto> first_book] ''1'' (Inr other_book)) = [''1'' \<mapsto> other_book]
   \<and> Written (updateBook_mux [''1'' \<mapsto> first_book] ''1'' (Inr other_book))
       = [\<lparr>status = 200, body = BookV other_book\<rparr>]"
  using update_keys_on_path [of "[''1'' \<mapsto> first_book]" "''1''" first_book other_book]
  by (simp add: other_book_def)

subsection \<open>C6: not found\<close>

text \<open>
  C6: on an id that is not in the Store, Get, Update (with a decoded record) and Delete
  answer 404 with "Record not found"; on an id that is in the Store, Delete answers 200
  and a second Delete of the same id answers 404 with "Record not found".
\<close>

theorem not_found_consistency:
  "(st k = None \<longrightarrow>
      Written (returnBooksByID st k) = [\<lparr>status = 404, body = H [(''error'', ''Record not found'')]\<rparr>]
    \<and> Written (updateBook st k (Inr r)) = [\<lparr>status = 404, body = H [(''error'', ''Record not found'')]\<rparr>]
    \<and> Written (deleteBook st k) = [\<lparr>status = 404, body = H [(''error'', ''Record not found'')]\<rparr>]
    \<and> Written (returnBooksByID_mux st k) = [\<lparr>status = 404, body = Text ''Record not found''\<rparr>]
    \<and> Written (updateBook_mux st k (Inr r)) = [\<lparr>status = 404, body = Text ''Record not found''\<rparr>]
    \<and> Written (deleteBook_mux st k) = [\<lparr>status = 404, body = Text ''Record not found''\<rparr>])
   \<and> (st k = Some b \<longrightarrow>
      Written (deleteBook st k)
        = [\<lparr>status = 200, body = H [(''message'', ''Book deleted successfully'')]\<rparr>]
    \<and> Written (deleteBook (Storage (deleteBook st k)) k)
        = [\<lparr>status = 404, body = H [(''error'', ''Record not found'')]\<rparr>]
    \<and> Written (deleteBook_mux st k)
        = [\<lparr>status = 200, body = H [(''message'', ''Book deleted successfully'')]\<rparr>]
    \<and> Written (deleteBook_mux (Storage (deleteBook_mux st k)) k)
        = [\<lparr>status = 404, body = Text ''Record not found''\<rparr>])"
  by (simp add: returnBooksByID_absent updateBook_absent deleteBook_absent deleteBook_present
      returnBooksByID_mux_absent updateBook_mux_absent deleteBook_mux_absent deleteBook_mux_present)

theorem not_found_consistency_witness:
  "((Map.empty :: storage) ''1'' = None
    \<and> Written (returnBooksByID Map.empty ''1'') = [\<lparr>status = 404, body = H [(''error'', ''Record not found'')]\<rparr>]
    \<and> Written (updateBook Map.empty ''1'' (Inr first_book)) = [\<lparr>status = 404, body = H [(''error'', ''Record not found'')]\<rparr>]
    \<and> Written (deleteBook Map.empty ''1'') = [\<lparr>status = 404, body = H [(''error'', ''Record not found'')]\<rparr>]
    \<and> Written (returnBooksByID_mux Map.empty ''1'') = [\<lparr>status = 404, body = Text ''Record not found''\<rparr>]
    \<and> Written (updateBook_mux Map.empty ''1'' (Inr first_book)) = [\<lparr>status = 404, body = Text ''Record not found''\<rparr>]
    \<and> Written (deleteBook_mux Map.empty ''1'') = [\<lparr>status = 404, body = Text ''Record not found''\<rparr>])
   \<and> ([''1'' \<mapsto> first_book] ''1'' = Some first_book
    \<and> Written (deleteBook [''1'' \<mapsto> first_book] ''1'')
        = [\<lparr>status = 200, body = H [(''message'', ''Book deleted successfully'')]\<rparr>]
    \<and> Written (deleteBook (Storage (deleteBook [''1'' \<mapsto> first_book] ''1'')) ''1'')
        = [\<lparr>status = 404, body = H [(''error'', ''Record not found'')]\<rparr>]
    \<and> Written (deleteBook_mux [''1'' \<mapsto> first_book] ''1'')
        = [\<lparr>status = 200, body = H [(''message'', ''Book deleted successfully'')]\<rparr>]
    \<and> Written (deleteBook_mux (Storage (deleteBook_mux [''1'' \<mapsto> first_book] ''1'')) ''1'')
        = [\<lparr>status = 404, body = Text ''Record not found''\<rparr>])"
  using not_found_consistency [of Map.empty "''1''" first_book first_book]
    not_found_consistency [of "[''1'' \<mapsto> first_book]" "''1''" first_book first_book]
  by simp

subsection \<open>C7: a body that does not decode\<close>

text \<open>
  C7: when the body of a Create or an Update fails to decode, the handler answers 400
  with the message "Invalid JSON format" and the Store is as it was before the request.
\<close>

theorem decode_failure_rejected:
  "Written (createBook st (Inl err)) = [\<lparr>status = 400, body = H [(''error'', ''Invalid JSON format'')]\<rparr>]
   \<and> Storage (createBook st (Inl err)) = st
   \<and> Written (updateBook st k (Inl err)) = [\<lparr>status = 400, body = H [(''error'', ''Invalid JSON format'')]\<rparr>]
   \<and> Storage (updateBook st k (Inl err)) = st
   \<and> Written (createBook_mux st (Inl err)) = [\<lparr>status = 400, body = Text ''Invalid JSON format''\<rparr>]
   \<and> Storage (createBook_mux st (Inl err)) = st
   \<and> Written (updateBook_mux st k (Inl err)) = [\<lparr>status = 400, body = Text ''Invalid JSON format''\<rparr>]
   \<and> Storage (updateBook_mux st k (Inl err)) = st"
  by (simp add: createBook_undecoded updateBook_undecoded createBook_mux_undecoded
      updateBook_mux_undecoded)

subsection \<open>C8: no lock across network I/O\<close>

text \<open>
  C8, as stated, fails. \<^verbatim>\<open>updateBook\<close> on a present id writes its response between
  \<^verbatim>\<open>Lock\<close> and the deferred \<^verbatim>\<open>Unlock\<close>.
\<close>

theorem update_responds_under_lock:
  "\<not> no_io_under_lock (Trace (updateBook [''1'' \<mapsto> first_book] ''1'' (Inr second_book)))"
  by (simp add: no_io_under_lock_def traces)

text \<open>
  C8, amended: in every handler the request body is decoded before any lock is taken,
  and every lock taken is released when the handler returns. \<^verbatim>\<open>returnBooksByID\<close> and
  \<^verbatim>\<open>createBook\<close> hold no lock across network I/O: they write the response after the
  lock is released. \<^verbatim>\<open>returnAllBooks\<close>, \<^verbatim>\<open>updateBook\<close> (once its body has decoded)
  and \<^verbatim>\<open>deleteBook\<close> release the lock by a deferred unlock and write the response
  while they hold it. This holds for both source files.
\<close>

theorem lock_and_io_order:
  "Decode \<notin> set (under_lock False (Trace (createBook st reqBody)))
   \<and> Decode \<notin> set (under_lock False (Trace (updateBook st k reqBody)))
   \<and> Decode \<notin> set (under_lock False (Trace (createBook_mux st reqBody)))
   \<and> Decode \<notin> set (under_lock False (Trace (updateBook_mux st k reqBody)))
   \<and> no_io_under_lock (Trace (returnBooksByID st k))
   \<and> no_io_under_lock (Trace (createBook st reqBody))
   \<and> no_io_under_lock (Trace (returnBooksByID_mux st k))
   \<and> no_io_under_lock (Trace (createBook_mux st reqBody))
   \<and> NetWrite \<in> set (under_lock False (Trace (returnAllBooks st keys)))
   \<and> NetWrite \<in> set (under_lock False (Trace (updateBook st k (Inr r))))
   \<and> NetWrite \<in> set (under_lock False (Trace (deleteBook st k)))
   \<and> NetWrite \<in> set (under_lock False (Trace (returnAllBooks_mux st keys)))
   \<and> NetWrite \<in> set (under_lock False (Trace (updateBook_mux st k (Inr r))))
   \<and> NetWrite \<in> set (under_lock False (Trace (deleteBook_mux st k)))
   \<and> \<not> held_after False (Trace (returnAllBooks st keys))
   \<and> \<not> held_after False (Trace (returnBooksByID st k))
   \<and> \<not> held_after False (Trace (createBook st reqBody))
   \<and> \<not> held_after False (Trace (updateBook st k reqBody))
   \<and> \<not> held_after False (Trace (deleteBook st k))
   \<and> \<not> held_after False (Trace (returnAllBooks_mux st keys))
   \<and> \<not> held_after False (Trace (returnBooksByID_mux st k))
   \<and> \<not> held_after False (Trace (createBook_mux st reqBody))
   \<and> \<not> held_after False (Trace (updateBook_mux st k reqBody))
   \<and> \<not> held_after False (Trace (deleteBook_mux st k))"
  by (simp add: no_io_under_lock_def traces split: sum.splits)

subsection \<open>C9: Create, then Get\<close>

text \<open>
  C9: for a Record \<open>r\<close> whose id is not in the Store, Create answers 200 with \<open>r\<close>, and
  Get of \<open>r\<close>'s id on the Store that Create leaves answers 200 with \<open>r\<close>, all three
  fields as they were sent.
\<close>

theorem create_then_get:
  assumes "st (ID r) = None"
  shows "Written (createBook st (Inr r)) = [\<lparr>status = 200, body = BookV r\<rparr>]
       \<and> Written (returnBooksByID (Storage (createBook st (Inr r))) (ID r))
           = [\<lparr>status = 200, body = BookV r\<rparr>]
       \<and> Written (createBook_mux st (Inr r)) = [\<lparr>status = 200, body = BookV r\<rparr>]
       \<and> Written (returnBooksByID_mux (Storage (createBook_mux st (Inr r))) (ID r))
           = [\<lparr>status = 200, body = BookV r\<rparr>]"
  using assms
  by (simp add: createBook_absent createBook_mux_absent returnBooksByID_present
      returnBooksByID_mux_present)

theorem create_then_get_witness:
  "(Map.empty :: storage) (ID first_book) = None
   \<and> Written (createBook Map.empty (Inr first_book)) = [\<lparr>status = 200, body = BookV first_book\<rparr>]
   \<and> Written (returnBooksByID (Storage (createBook Map.empty (Inr first_book))) (ID first_book))
       = [\<lparr>status = 200, body = BookV first_book\<rparr>]
   \<and> Written (createBook_mux Map.empty (Inr first_book)) = [\<lparr>status = 200, body = BookV first_book\<rparr>]
   \<and> Written (returnBooksByID_mux (Storage (createBook_mux Map.empty (Inr first_book))) (ID first_book))
       = [\<lparr>status = 200, body = BookV first_book\<rparr>]"
  using create_then_get [of Map.empty first_book] by simp

subsection \<open>C10: the other keys\<close>

text \<open>
  C10: a Create of a Record with id \<open>k\<close>, an Update on path \<open>k\<close> and a Delete of \<open>k\<close>
  leave the entry at every other key \<open>k'\<close> as it was; this holds whether the request
  succeeds or not, so in particular for every successful one.
\<close>

theorem other_keys_unchanged:
  assumes "k' \<noteq> k" and "ID r = k"
  shows "Storage (createBook st (Inr r)) k' = st k'
       \<and> Storage (updateBook st k reqBody) k' = st k'
       \<and> Storage (deleteBook st k) k' = st k'
       \<and> Storage (createBook_mux st (Inr r)) k' = st k'
       \<and> Storage (updateBook_mux st k reqBody) k' = st k'
       \<and> Storage (deleteBook_mux st k) k' = st k'"
  using assms
  by (auto simp: handlers handlers_mux handler_defs Let_def split: sum.splits option.splits)

theorem other_keys_unchanged_witness:
  "''2'' \<noteq> ''1'' \<and> ID first_book = ''1''
   \<and> Storage (createBook [''2'' \<mapsto> other_book] (Inr first_book)) ''2'' = Some other_book
   \<and> Storage (updateBook [''1'' \<mapsto> first_book, ''2'' \<mapsto> other_book] ''1'' (Inr second_book)) ''2''
       = Some other_book
   \<and> Storage (deleteBook [''1'' \<mapsto> first_book, ''2'' \<mapsto> other_book] ''1'') ''2'' = Some other_book
   \<and> Storage (createBook_mux [''2'' \<mapsto> other_book] (Inr first_book)) ''2'' = Some other_book
   \<and> Storage (updateBook_mux [''1'' \<mapsto> first_book, ''2'' \<mapsto> other_book] ''1'' (Inr second_book)) ''2''
       = Some other_book
   \<and> Storage (deleteBook_mux [''1'' \<mapsto> first_book, ''2'' \<mapsto> other_book] ''1'') ''2'' = Some other_book"
  using other_keys_unchanged [of "''2''" "''1''" first_book "[''2'' \<mapsto> other_book]" "Inr second_book"]
    other_keys_unchanged
      [of "''2''" "''1''" first_book "[''1'' \<mapsto> first_book, ''2'' \<mapsto> other_book]" "Inr second_book"]
  by (simp add: first_book_def)

end
